theory Spec2Isabelle
  imports
    Complex_Main
    "HOL-Library.Char_ord"
    "HOL-Library.List_Lexorder"
    "HOL-Library.Product_Lexorder"
begin

section \<open>Veterinary ration calculator: a shallow embedding of \<^verbatim>\<open>src/main.py\<close>\<close>

text \<open>
  Conventions of the embedding.
  \<^item> A Python \<^verbatim>\<open>float\<close> is a \<open>real\<close>: arithmetic is exact, and the non-finite values
    (\<^verbatim>\<open>nan\<close>, \<^verbatim>\<open>inf\<close>) are outside the model. Formatting such as \<^verbatim>\<open>{x:.2f}\<close> happens only
    when a value is printed, so the report of the model keeps the unformatted numbers.
  \<^item> \<^verbatim>\<open>sys.exit(msg)\<close> is the value \<open>Inl (SystemExit msg)\<close>; an uncaught
    \<^verbatim>\<open>ZeroDivisionError\<close> is \<open>Inl ZeroDivisionError\<close>.
  \<^item> The two tables that \<^verbatim>\<open>load_data\<close> reads are lists of typed rows, in file order.
  \<^item> The builtin \<^verbatim>\<open>float(str)\<close> and the three similarity scores of
    \<^verbatim>\<open>difflib.SequenceMatcher\<close> are library code: they are parameters of the model
    (\<open>pyfloat\<close>, where \<open>None\<close> stands for \<^verbatim>\<open>ValueError\<close>, and a \<open>sequence_matcher\<close>).
\<close>

subsection \<open>Data model\<close>

record feed =
  Feed_ID :: string
  Name :: string
  Max_Inclusion_Pct :: real
  ME_per_kg :: real
  CP_Pct :: real
  Ca_Pct :: real
  P_Pct :: real
  Lysine_Pct :: real

text \<open>A target is \<open>None\<close> when the cell is empty (\<^verbatim>\<open>pd.isna\<close>) or, for
  \<^verbatim>\<open>Lysine_Target\<close>, when the column is absent (\<^verbatim>\<open>animal_std.get('Lysine_Target', '-')\<close>).\<close>

record animal_standard =
  Animal_ID :: string
  Description :: string
  Tolerance_Pct :: real
  ME_Target :: "real option"
  CP_Target :: "real option"
  Ca_Target :: "real option"
  P_Target :: "real option"
  Lysine_Target :: "real option"

datatype error = SystemExit string | ZeroDivisionError

text \<open>The dictionary \<^verbatim>\<open>total_nutrients\<close>, with its five fixed keys.\<close>

record nutrients =
  t_ME :: real
  t_CP :: real
  t_Ca :: real
  t_P :: real
  t_Lysine :: real

text \<open>An element of \<^verbatim>\<open>diet_data\<close>; its keys \<^verbatim>\<open>'Feed_ID'\<close> and \<^verbatim>\<open>'Name'\<close> copy fields of
  \<^verbatim>\<open>'Data'\<close> and are never read.\<close>

record diet_item =
  Data :: feed
  Qty :: real

subsection \<open>Strings\<close>

text \<open>\<^verbatim>\<open>s.split(sep)\<close> for a one-character separator: never empty, keeps empty fields.\<close>

fun split_str :: "char \<Rightarrow> string \<Rightarrow> string list" where
  "split_str sep [] = [[]]"
| "split_str sep (c # cs) =
     (if c = sep then [] # split_str sep cs
      else (case split_str sep cs of
              [] \<Rightarrow> [[c]]
            | w # ws \<Rightarrow> (c # w) # ws))"

text \<open>\<^verbatim>\<open>sep.join(xs)\<close>.\<close>

fun join_str :: "string \<Rightarrow> string list \<Rightarrow> string" where
  "join_str sep [] = []"
| "join_str sep [x] = x"
| "join_str sep (x # y # ys) = x @ sep @ join_str sep (y # ys)"

subsection \<open>Fuzzy matching: \<^verbatim>\<open>find_similar_id\<close>\<close>

text \<open>The three scores of \<^verbatim>\<open>difflib.SequenceMatcher\<close>, each called with \<^verbatim>\<open>seq1\<close> the
  candidate and \<^verbatim>\<open>seq2\<close> the word looked for.\<close>

record sequence_matcher =
  real_quick_ratio :: "string \<Rightarrow> string \<Rightarrow> real"
  quick_ratio :: "string \<Rightarrow> string \<Rightarrow> real"
  ratio :: "string \<Rightarrow> string \<Rightarrow> real"

text \<open>\<^verbatim>\<open>heapq.nlargest(n, xs)\<close>, which is \<^verbatim>\<open>sorted(xs, reverse=True)[:n]\<close>; the pairs
  \<^verbatim>\<open>(score, x)\<close> are compared lexicographically.\<close>

definition nlargest :: "nat \<Rightarrow> (real \<times> string) list \<Rightarrow> (real \<times> string) list" where
  "nlargest n xs = take n (rev (sort xs))"

text \<open>\<^verbatim>\<open>difflib.get_close_matches(word, possibilities, n, cutoff)\<close>; its two argument
  checks (\<^verbatim>\<open>n > 0\<close>, \<^verbatim>\<open>0 <= cutoff <= 1\<close>) pass for the constants of the one caller.\<close>

definition get_close_matches ::
  "sequence_matcher \<Rightarrow> string \<Rightarrow> string list \<Rightarrow> nat \<Rightarrow> real \<Rightarrow> string list" where
  "get_close_matches sm word possibilities n cutoff =
     (let result =
            map (\<lambda>x. (ratio sm x word, x))
              (filter (\<lambda>x. real_quick_ratio sm x word \<ge> cutoff \<and>
                            quick_ratio sm x word \<ge> cutoff \<and>
                            ratio sm x word \<ge> cutoff)
                 possibilities)
      in map snd (nlargest n result))"

definition find_similar_id :: "sequence_matcher \<Rightarrow> string \<Rightarrow> string list \<Rightarrow> string list" where
  "find_similar_id sm target available_ids =
     get_close_matches sm target available_ids 3 (6 / 10)"

subsection \<open>Identifier lookup in \<^verbatim>\<open>cmd_check\<close>\<close>

text \<open>The message built at lines 66-68 and 89-91: \<open>kind\<close> is \<^verbatim>\<open>Animal ID\<close> or \<^verbatim>\<open>Feed ID\<close>.\<close>

definition not_found_msg :: "string \<Rightarrow> string \<Rightarrow> string list \<Rightarrow> string" where
  "not_found_msg kind ident similar =
     (let msg = ''Error: '' @ kind @ '' '' @ [CHR 0x27] @ ident @ [CHR 0x27] @ '' not found.''
      in if similar \<noteq> [] then msg @ '' Did you mean: '' @ join_str '', '' similar @ ''?''
         else msg)"

text \<open>Lines 63-71: the rows whose key equals the argument; \<^verbatim>\<open>iloc[0]\<close> takes the first.\<close>

definition lookup_animal ::
  "sequence_matcher \<Rightarrow> animal_standard list \<Rightarrow> string \<Rightarrow> error + animal_standard" where
  "lookup_animal sm standards_df animal =
     (case filter (\<lambda>r. Animal_ID r = animal) standards_df of
        [] \<Rightarrow> Inl (SystemExit (not_found_msg ''Animal ID'' animal
                 (find_similar_id sm animal (map Animal_ID standards_df))))
      | animal_std # _ \<Rightarrow> Inr animal_std)"

text \<open>Lines 86-94, the same for a feed.\<close>

definition lookup_feed ::
  "sequence_matcher \<Rightarrow> feed list \<Rightarrow> string \<Rightarrow> error + feed" where
  "lookup_feed sm feeds_df f_id =
     (case filter (\<lambda>r. Feed_ID r = f_id) feeds_df of
        [] \<Rightarrow> Inl (SystemExit (not_found_msg ''Feed ID'' f_id
                 (find_similar_id sm f_id (map Feed_ID feeds_df))))
      | feed_data # _ \<Rightarrow> Inr feed_data)"

subsection \<open>Parsing the diet string\<close>

definition invalid_diet_msg :: "string \<Rightarrow> string" where
  "invalid_diet_msg entry =
     ''Error: Invalid diet format '' @ [CHR 0x27] @ entry @ [CHR 0x27] @
     ''. Use '' @ [CHR 0x27] @ ''FeedID:Quantity'' @ [CHR 0x27] @ ''.''"

text \<open>Lines 79-83, the \<^verbatim>\<open>try\<close> block: unpacking \<^verbatim>\<open>entry.split(':')\<close> into two names raises
  \<^verbatim>\<open>ValueError\<close> unless the list has exactly two elements, and so does \<^verbatim>\<open>float\<close> on a
  string it cannot read; both are caught by the one \<^verbatim>\<open>except ValueError\<close>.\<close>

definition parse_entry :: "(string \<Rightarrow> real option) \<Rightarrow> string \<Rightarrow> error + (string \<times> real)" where
  "parse_entry pyfloat entry =
     (case split_str CHR '':'' entry of
        [f_id, qty_str] \<Rightarrow>
          (case pyfloat qty_str of
             Some qty \<Rightarrow> Inr (f_id, qty)
           | None \<Rightarrow> Inl (SystemExit (invalid_diet_msg entry)))
      | _ \<Rightarrow> Inl (SystemExit (invalid_diet_msg entry)))"

text \<open>Lines 78-96, the loop over \<^verbatim>\<open>diet_entries\<close> with its two accumulators.\<close>

fun parse_diet ::
  "(string \<Rightarrow> real option) \<Rightarrow> sequence_matcher \<Rightarrow> feed list \<Rightarrow> string list \<Rightarrow>
   diet_item list \<Rightarrow> real \<Rightarrow> error + (diet_item list \<times> real)" where
  "parse_diet pyfloat sm feeds_df [] diet_data total_qty = Inr (diet_data, total_qty)"
| "parse_diet pyfloat sm feeds_df (entry # rest) diet_data total_qty =
     (case parse_entry pyfloat entry of
        Inl e \<Rightarrow> Inl e
      | Inr (f_id, qty) \<Rightarrow>
          (case lookup_feed sm feeds_df f_id of
             Inl e \<Rightarrow> Inl e
           | Inr feed_data \<Rightarrow>
               parse_diet pyfloat sm feeds_df rest
                 (diet_data @ [\<lparr>Data = feed_data, Qty = qty\<rparr>]) (total_qty + qty)))"

subsection \<open>Contributions and totals\<close>

datatype warning =
    TotalQuantityWarning real
  | ConstraintWarning string real real

text \<open>What the loop of lines 110-135 updates: the totals, the rows of the ration table
  (name, quantity and the contributions to ME, CP, Ca and P) and the warnings printed.\<close>

record ration_state =
  total_nutrients :: nutrients
  table_rows :: "(string \<times> real \<times> real \<times> real \<times> real \<times> real) list"
  printed :: "warning list"

definition ration_step :: "ration_state \<Rightarrow> diet_item \<Rightarrow> ration_state" where
  "ration_step st item =
     (let f = Data item;
          q = Qty item;
          out = (if q > Max_Inclusion_Pct f
                 then printed st @ [ConstraintWarning (Name f) q (Max_Inclusion_Pct f)]
                 else printed st);
          me_contrib = (q * ME_per_kg f) / 100;
          cp_contrib = (q * CP_Pct f) / 100;
          ca_contrib = (q * Ca_Pct f) / 100;
          p_contrib = (q * P_Pct f) / 100;
          lys_contrib = (q * Lysine_Pct f) / 100;
          tn = total_nutrients st
      in \<lparr>total_nutrients =
            \<lparr>t_ME = t_ME tn + me_contrib,
             t_CP = t_CP tn + cp_contrib,
             t_Ca = t_Ca tn + ca_contrib,
             t_P = t_P tn + p_contrib,
             t_Lysine = t_Lysine tn + lys_contrib\<rparr>,
          table_rows =
            table_rows st @ [(Name f, q, me_contrib, cp_contrib, ca_contrib, p_contrib)],
          printed = out\<rparr>)"

definition initial_state :: ration_state where
  "initial_state =
     \<lparr>total_nutrients = \<lparr>t_ME = 0, t_CP = 0, t_Ca = 0, t_P = 0, t_Lysine = 0\<rparr>,
      table_rows = [],
      printed = []\<rparr>"

definition calculate_totals :: "diet_item list \<Rightarrow> ration_state" where
  "calculate_totals diet_data = foldl ration_step initial_state diet_data"

subsection \<open>Ratios (lines 143-144)\<close>

text \<open>Division raises \<^verbatim>\<open>ZeroDivisionError\<close> on a zero divisor.\<close>

definition py_div :: "real \<Rightarrow> real \<Rightarrow> error + real" where
  "py_div a b = (if b = 0 then Inl ZeroDivisionError else Inr (a / b))"

definition ca_p_ratio :: "nutrients \<Rightarrow> error + real" where
  "ca_p_ratio tn = (if t_P tn > 0 then py_div (t_Ca tn) (t_P tn) else Inr 0)"

definition me_cp_ratio :: "nutrients \<Rightarrow> error + real" where
  "me_cp_ratio tn = (if t_CP tn > 0 then py_div (t_ME tn) (t_CP tn) else Inr 0)"

subsection \<open>Comparison with the standard (lines 147-177)\<close>

datatype status = NA | OK | LOW real | HIGH real

datatype verdict = PASS | FAIL

text \<open>The statuses that name a deviation.\<close>

fun off_target :: "status \<Rightarrow> bool" where
  "off_target (LOW d) = True"
| "off_target (HIGH d) = True"
| "off_target OK = False"
| "off_target NA = False"

text \<open>Lines 162-175 for one nutrient whose target is a number: the status, and the overall
  status after it. \<open>LOW d\<close> and \<open>HIGH d\<close> carry the percentage that the label prints, the
  latter after a \<^verbatim>\<open>+\<close>.\<close>

definition compare_target :: "real \<Rightarrow> real \<Rightarrow> real \<Rightarrow> verdict \<Rightarrow> error + (status \<times> verdict)" where
  "compare_target tolerance calc target overall_status =
     (let low = target * (1 - tolerance);
          high = target * (1 + tolerance)
      in if low \<le> calc \<and> calc \<le> high then Inr (OK, overall_status)
         else if calc < low then
           (case py_div (calc - target) target of
              Inl e \<Rightarrow> Inl e
            | Inr d \<Rightarrow> Inr (LOW (d * 100), FAIL))
         else
           (case py_div (calc - target) target of
              Inl e \<Rightarrow> Inl e
            | Inr d \<Rightarrow> Inr (HIGH (d * 100), FAIL)))"

type_synonym comp_row = "string \<times> real \<times> real option \<times> status"

text \<open>The loop of lines 156-177 over \<^verbatim>\<open>comparison_data\<close>.\<close>

fun compare_loop ::
  "real \<Rightarrow> (string \<times> real \<times> real option) list \<Rightarrow> comp_row list \<Rightarrow> verdict \<Rightarrow>
   error + (comp_row list \<times> verdict)" where
  "compare_loop tolerance [] comp_rows overall_status = Inr (comp_rows, overall_status)"
| "compare_loop tolerance ((label, calc, None) # rest) comp_rows overall_status =
     compare_loop tolerance rest (comp_rows @ [(label, calc, None, NA)]) overall_status"
| "compare_loop tolerance ((label, calc, Some target) # rest) comp_rows overall_status =
     (case compare_target tolerance calc target overall_status of
        Inl e \<Rightarrow> Inl e
      | Inr (st, overall_status') \<Rightarrow>
          compare_loop tolerance rest (comp_rows @ [(label, calc, Some target, st)])
            overall_status')"

definition comparison_data ::
  "nutrients \<Rightarrow> animal_standard \<Rightarrow> (string \<times> real \<times> real option) list" where
  "comparison_data tn animal_std =
     [(''Metabolizable Energy (ME)'', t_ME tn, ME_Target animal_std),
      (''Crude Protein (CP %)'', t_CP tn, CP_Target animal_std),
      (''Calcium (Ca %)'', t_Ca tn, Ca_Target animal_std),
      (''Phosphorus (P %)'', t_P tn, P_Target animal_std),
      (''Lysine (%)'', t_Lysine tn, Lysine_Target animal_std)]"

subsection \<open>The command \<^verbatim>\<open>check\<close>\<close>

record report =
  warnings :: "warning list"
  ration_table :: "(string \<times> real \<times> real \<times> real \<times> real \<times> real) list"
  totals :: nutrients
  balance :: "comp_row list"
  ca_p :: real
  ca_p_in_range :: bool
  me_cp :: real
  final_result :: verdict

definition cmd_check ::
  "(string \<Rightarrow> real option) \<Rightarrow> sequence_matcher \<Rightarrow> animal_standard list \<Rightarrow> feed list \<Rightarrow>
   string \<Rightarrow> string \<Rightarrow> error + report" where
  "cmd_check pyfloat sm standards_df feeds_df animal diet =
     (case lookup_animal sm standards_df animal of
        Inl e \<Rightarrow> Inl e
      | Inr animal_std \<Rightarrow>
          (case parse_diet pyfloat sm feeds_df (split_str CHR '','' diet) [] 0 of
             Inl e \<Rightarrow> Inl e
           | Inr (diet_data, total_qty) \<Rightarrow>
               (let w = (if \<bar>total_qty - 100\<bar> > 1 / 10
                         then [TotalQuantityWarning total_qty] else []);
                    st = calculate_totals diet_data;
                    tn = total_nutrients st
                in case ca_p_ratio tn of
                     Inl e \<Rightarrow> Inl e
                   | Inr ca_p_value \<Rightarrow>
                 (case me_cp_ratio tn of
                     Inl e \<Rightarrow> Inl e
                   | Inr me_cp_value \<Rightarrow>
                 (let tolerance = Tolerance_Pct animal_std / 100
                  in case compare_loop tolerance (comparison_data tn animal_std) [] PASS of
                       Inl e \<Rightarrow> Inl e
                     | Inr (comp_rows, overall_status) \<Rightarrow>
                         Inr \<lparr>warnings = w @ printed st,
                              ration_table = table_rows st,
                              totals = tn,
                              balance = comp_rows,
                              ca_p = ca_p_value,
                              ca_p_in_range = (12 / 10 \<le> ca_p_value \<and> ca_p_value \<le> 35 / 10),
                              me_cp = me_cp_value,
                              final_result = overall_status\<rparr>)))))"

subsection \<open>The commands \<^verbatim>\<open>pearson\<close> and \<^verbatim>\<open>dilute\<close>\<close>

record pearson_output =
  diff1 :: real
  diff2 :: real
  pct1 :: real
  pct2 :: real

definition cmd_pearson :: "real \<Rightarrow> real \<Rightarrow> real \<Rightarrow> error + pearson_output" where
  "cmd_pearson target f1 f2 =
     (if \<not> ((f1 \<le> target \<and> target \<le> f2) \<or> (f2 \<le> target \<and> target \<le> f1))
      then Inl (SystemExit ''Error: Target value must be between the two feed values.'')
      else
        (let d1 = \<bar>f2 - target\<bar>;
             d2 = \<bar>f1 - target\<bar>;
             total_parts = d1 + d2
         in case py_div d1 total_parts of
              Inl e \<Rightarrow> Inl e
            | Inr r1 \<Rightarrow>
                (case py_div d2 total_parts of
                   Inl e \<Rightarrow> Inl e
                 | Inr r2 \<Rightarrow>
                     Inr \<lparr>diff1 = d1, diff2 = d2, pct1 = r1 * 100, pct2 = r2 * 100\<rparr>)))"

record dilute_output =
  dilution_factor :: real
  water_parts :: real

definition cmd_dilute :: "real \<Rightarrow> real \<Rightarrow> error + dilute_output" where
  "cmd_dilute start target =
     (if target \<ge> start
      then Inl (SystemExit
        ''Error: Target concentration must be lower than start concentration for dilution.'')
      else if target \<le> 0
      then Inl (SystemExit ''Error: Target cannot be zero.'')
      else
        (case py_div start target of
           Inl e \<Rightarrow> Inl e
         | Inr factor \<Rightarrow> Inr \<lparr>dilution_factor = factor, water_parts = factor - 1\<rparr>))"

subsection \<open>Sample instances of the library parameters and of the tables\<close>

text \<open>
  The properties below hold for every \<open>pyfloat\<close> and every \<open>sequence_matcher\<close>. To run the
  commands on concrete inputs, this section fixes one instance of each: a reader of plain
  signed decimal literals (a part of what \<^verbatim>\<open>float\<close> accepts) and a matcher that scores two
  strings by their common prefix, with two small tables.
\<close>

text \<open>The value of a decimal digit, by its place in the list of digits.\<close>

definition digit_value :: "char \<Rightarrow> nat option" where
  "digit_value c = map_of (zip ''0123456789'' [0, 1, 2, 3, 4, 5, 6, 7, 8, 9]) c"

fun digits_value :: "string \<Rightarrow> nat \<Rightarrow> nat option" where
  "digits_value [] acc = Some acc"
| "digits_value (c # cs) acc =
     (case digit_value c of
        None \<Rightarrow> None
      | Some d \<Rightarrow> digits_value cs (10 * acc + d))"

definition unsigned_decimal :: "string \<Rightarrow> real option" where
  "unsigned_decimal s =
     (case split_str CHR ''.'' s of
        [i] \<Rightarrow> (if i = [] then None else map_option real (digits_value i 0))
      | [i, f] \<Rightarrow>
          (if i = [] \<and> f = [] then None
           else (case (digits_value i 0, digits_value f 0) of
                   (Some a, Some b) \<Rightarrow> Some (real a + real b / 10 ^ length f)
                 | _ \<Rightarrow> None))
      | _ \<Rightarrow> None)"

definition decimal_float :: "string \<Rightarrow> real option" where
  "decimal_float s =
     (case s of
        [] \<Rightarrow> None
      | c # cs \<Rightarrow>
          (if c = CHR ''-'' then map_option uminus (unsigned_decimal cs)
           else if c = CHR ''+'' then unsigned_decimal cs
           else unsigned_decimal s))"

fun common_prefix :: "string \<Rightarrow> string \<Rightarrow> nat" where
  "common_prefix (a # as) (b # bs) = (if a = b then Suc (common_prefix as bs) else 0)"
| "common_prefix _ _ = 0"

definition prefix_score :: "string \<Rightarrow> string \<Rightarrow> real" where
  "prefix_score a b =
     (if length a + length b = 0 then 1
      else 2 * real (common_prefix a b) / real (length a + length b))"

definition prefix_matcher :: sequence_matcher where
  "prefix_matcher =
     \<lparr>real_quick_ratio = prefix_score, quick_ratio = prefix_score, ratio = prefix_score\<rparr>"

definition sample_feeds :: "feed list" where
  "sample_feeds =
     [\<lparr>Feed_ID = ''F1'', Name = ''Corn'', Max_Inclusion_Pct = 60, ME_per_kg = 3000,
       CP_Pct = 10, Ca_Pct = 1, P_Pct = 1 / 2, Lysine_Pct = 1 / 4\<rparr>,
      \<lparr>Feed_ID = ''F2'', Name = ''Soybean'', Max_Inclusion_Pct = 40, ME_per_kg = 2000,
       CP_Pct = 40, Ca_Pct = 2, P_Pct = 1, Lysine_Pct = 3\<rparr>]"

definition sample_standards :: "animal_standard list" where
  "sample_standards =
     [\<lparr>Animal_ID = ''XYZ1'', Description = ''Broiler'', Tolerance_Pct = 10,
       ME_Target = Some 2600, CP_Target = Some 22, Ca_Target = Some (14 / 10),
       P_Target = Some (7 / 10), Lysine_Target = None\<rparr>]"

text \<open>A standards table whose row asks for no lysine at all: the target is the number 0.\<close>

definition zero_target_standards :: "animal_standard list" where
  "zero_target_standards =
     [\<lparr>Animal_ID = ''XYZ0'', Description = ''Layer'', Tolerance_Pct = 10,
       ME_Target = Some 2600, CP_Target = Some 22, Ca_Target = Some (14 / 10),
       P_Target = Some (7 / 10), Lysine_Target = Some 0\<rparr>]"

section \<open>Properties\<close>

subsection \<open>Helper facts\<close>

lemma py_div_simps:
  "b \<noteq> 0 \<Longrightarrow> py_div a b = Inr (a / b)"
  "py_div a 0 = Inl ZeroDivisionError"
  by (simp_all add: py_div_def)

lemma foldl_ration_step_totals:
  "total_nutrients (foldl ration_step st diet_data) =
     \<lparr>t_ME = t_ME (total_nutrients st) +
        (\<Sum>item\<leftarrow>diet_data. Qty item * ME_per_kg (Data item) / 100),
      t_CP = t_CP (total_nutrients st) +
        (\<Sum>item\<leftarrow>diet_data. Qty item * CP_Pct (Data item) / 100),
      t_Ca = t_Ca (total_nutrients st) +
        (\<Sum>item\<leftarrow>diet_data. Qty item * Ca_Pct (Data item) / 100),
      t_P = t_P (total_nutrients st) +
        (\<Sum>item\<leftarrow>diet_data. Qty item * P_Pct (Data item) / 100),
      t_Lysine = t_Lysine (total_nutrients st) +
        (\<Sum>item\<leftarrow>diet_data. Qty item * Lysine_Pct (Data item) / 100)\<rparr>"
proof (induction diet_data arbitrary: st)
  case Nil
  then show ?case by simp
next
  case (Cons item rest)
  show ?case
    by (simp add: Cons.IH [of "ration_step st item"]) (simp add: ration_step_def Let_def)
qed

lemma cmd_pearson_zero_division_iff:
  "(cmd_pearson target f1 f2 = Inl ZeroDivisionError) = (f1 = target \<and> f2 = target)"
  by (auto simp: cmd_pearson_def py_div_def Let_def)

lemma cmd_pearson_value:
  assumes "\<bar>f2 - target\<bar> + \<bar>f1 - target\<bar> \<noteq> 0"
    and "(f1 \<le> target \<and> target \<le> f2) \<or> (f2 \<le> target \<and> target \<le> f1)"
  shows "cmd_pearson target f1 f2 =
           Inr \<lparr>diff1 = \<bar>f2 - target\<bar>, diff2 = \<bar>f1 - target\<bar>,
                pct1 = \<bar>f2 - target\<bar> / (\<bar>f2 - target\<bar> + \<bar>f1 - target\<bar>) * 100,
                pct2 = \<bar>f1 - target\<bar> / (\<bar>f2 - target\<bar> + \<bar>f1 - target\<bar>) * 100\<rparr>"
  using assms by (simp add: cmd_pearson_def py_div_def Let_def)

lemma percent_sum:
  fixes a b :: real
  assumes "a + b \<noteq> 0"
  shows "a / (a + b) * 100 + b / (a + b) * 100 = 100"
proof -
  have "a / (a + b) * 100 + b / (a + b) * 100 = (a + b) / (a + b) * 100"
    by (simp only: add_divide_distrib distrib_right)
  also have "\<dots> = 100" using assms by simp
  finally show ?thesis .
qed

subsection \<open>Two runs of the command on the sample tables\<close>

lemmas run_simps = cmd_check_def lookup_animal_def lookup_feed_def parse_entry_def
  decimal_float_def unsigned_decimal_def digit_value_def prefix_matcher_def prefix_score_def
  sample_feeds_def sample_standards_def calculate_totals_def initial_state_def ration_step_def
  ca_p_ratio_def me_cp_ratio_def py_div_def comparison_data_def compare_target_def
  find_similar_id_def get_close_matches_def nlargest_def not_found_msg_def invalid_diet_msg_def Let_def

lemma sample_run_pass:
  "cmd_check decimal_float prefix_matcher sample_standards sample_feeds ''XYZ1'' ''F1:60,F2:40'' =
     Inr \<lparr>warnings = [],
          ration_table = [(''Corn'', 60, 1800, 6, 3 / 5, 3 / 10), (''Soybean'', 40, 800, 16, 4 / 5, 2 / 5)],
          totals = \<lparr>t_ME = 2600, t_CP = 22, t_Ca = 7 / 5, t_P = 7 / 10, t_Lysine = 27 / 20\<rparr>,
          balance =
            [(''Metabolizable Energy (ME)'', 2600, Some 2600, OK),
             (''Crude Protein (CP %)'', 22, Some 22, OK),
             (''Calcium (Ca %)'', 7 / 5, Some (7 / 5), OK),
             (''Phosphorus (P %)'', 7 / 10, Some (7 / 10), OK),
             (''Lysine (%)'', 27 / 20, None, NA)],
          ca_p = 2, ca_p_in_range = True, me_cp = 1300 / 11, final_result = PASS\<rparr>"
  by (simp add: run_simps)

lemma sample_run_negative:
  "cmd_check decimal_float prefix_matcher sample_standards sample_feeds ''XYZ1'' ''F1:-10'' =
     Inr \<lparr>warnings = [TotalQuantityWarning (- 10)],
          ration_table = [(''Corn'', - 10, - 300, - 1, - (1 / 10), - (1 / 20))],
          totals = \<lparr>t_ME = - 300, t_CP = - 1, t_Ca = - (1 / 10), t_P = - (1 / 20),
                    t_Lysine = - (1 / 40)\<rparr>,
          balance =
            [(''Metabolizable Energy (ME)'', - 300, Some 2600, LOW (- (1450 / 13))),
             (''Crude Protein (CP %)'', - 1, Some 22, LOW (- (1150 / 11))),
             (''Calcium (Ca %)'', - (1 / 10), Some (7 / 5), LOW (- (750 / 7))),
             (''Phosphorus (P %)'', - (1 / 20), Some (7 / 10), LOW (- (750 / 7))),
             (''Lysine (%)'', - (1 / 40), None, NA)],
          ca_p = 0, ca_p_in_range = False, me_cp = 0, final_result = FAIL\<rparr>"
  by (simp add: run_simps)

subsection \<open>Nutrient totals\<close>

text \<open>
  Claim C1. For every diet, a list of resolved entries, the total that the loop accumulates
  for each of ME, CP, Ca, P and Lysine is the sum over the entries of quantity times the
  feed's value for that nutrient, divided by 100. The totals hold these sums themselves:
  nothing is rounded before it is added.
\<close>

theorem calculate_totals_sums:
  "t_ME (total_nutrients (calculate_totals diet_data)) =
     (\<Sum>item\<leftarrow>diet_data. Qty item * ME_per_kg (Data item) / 100) \<and>
   t_CP (total_nutrients (calculate_totals diet_data)) =
     (\<Sum>item\<leftarrow>diet_data. Qty item * CP_Pct (Data item) / 100) \<and>
   t_Ca (total_nutrients (calculate_totals diet_data)) =
     (\<Sum>item\<leftarrow>diet_data. Qty item * Ca_Pct (Data item) / 100) \<and>
   t_P (total_nutrients (calculate_totals diet_data)) =
     (\<Sum>item\<leftarrow>diet_data. Qty item * P_Pct (Data item) / 100) \<and>
   t_Lysine (total_nutrients (calculate_totals diet_data)) =
     (\<Sum>item\<leftarrow>diet_data. Qty item * Lysine_Pct (Data item) / 100)"
  by (simp add: calculate_totals_def foldl_ration_step_totals initial_state_def)

subsection \<open>Pearson square\<close>

text \<open>
  Claim C5. The claim asks that the Pearson square never divides by zero when the target
  lies between the two feed values. At \<open>target = f1 = f2 = 5\<close> the precondition holds, the
  total of the parts is zero, and the command stops with an uncaught
  \<^verbatim>\<open>ZeroDivisionError\<close>; by \<open>cmd_pearson_zero_division_iff\<close> these degenerate inputs are
  the only ones where it does.
\<close>

theorem cmd_pearson_degenerate_crashes:
  "cmd_pearson 5 5 5 = Inl ZeroDivisionError"
  using cmd_pearson_zero_division_iff [of 5 5 5] by simp

text \<open>
  Claim C6. When the target lies strictly between the two feed values, in either order, the
  command returns the parts \<open>|f2 - target|\<close> and \<open>|f1 - target|\<close>, each percentage is the
  part over the total of the parts times 100, the quotient of the parts is
  \<open>(f2 - target) / (target - f1)\<close>, and the percentages add up to 100.
\<close>

theorem cmd_pearson_strictly_between:
  assumes "(f1 < target \<and> target < f2) \<or> (f2 < target \<and> target < f1)"
  shows "\<exists>r. cmd_pearson target f1 f2 = Inr r \<and>
           diff1 r = \<bar>f2 - target\<bar> \<and> diff2 r = \<bar>f1 - target\<bar> \<and>
           pct1 r = diff1 r / (diff1 r + diff2 r) * 100 \<and>
           pct2 r = diff2 r / (diff1 r + diff2 r) * 100 \<and>
           diff1 r / diff2 r = (f2 - target) / (target - f1) \<and>
           pct1 r + pct2 r = 100"
proof -
  have nz: "\<bar>f2 - target\<bar> + \<bar>f1 - target\<bar> \<noteq> 0"
    using assms by auto
  have pre: "(f1 \<le> target \<and> target \<le> f2) \<or> (f2 \<le> target \<and> target \<le> f1)"
    using assms by auto
  have quot: "\<bar>f2 - target\<bar> / \<bar>f1 - target\<bar> = (f2 - target) / (target - f1)"
  proof -
    from assms consider "f1 < target \<and> target < f2" | "f2 < target \<and> target < f1" by blast
    then show ?thesis
    proof cases
      case 1
      then show ?thesis by simp
    next
      case 2
      then have "\<bar>f2 - target\<bar> = - (f2 - target)" "\<bar>f1 - target\<bar> = - (target - f1)"
        by simp_all
      then show ?thesis by (simp only: minus_divide_divide)
    qed
  qed
  show ?thesis
    using percent_sum [OF nz] quot
    by (simp add: cmd_pearson_value [OF nz pre])
qed

theorem cmd_pearson_strictly_between_witness:
  "\<exists>r. cmd_pearson 16 10 40 = Inr r \<and> diff1 r = 24 \<and> diff2 r = 6 \<and>
       pct1 r = 80 \<and> pct2 r = 20"
  using cmd_pearson_strictly_between [of 10 16 40] by auto

subsection \<open>Dilution\<close>

text \<open>
  Claim C7. The dilution command exits with an error message exactly when the target
  concentration is at least the start concentration or is at most zero, and it never
  divides by zero; when the target is positive and below the start it returns the
  dilution factor \<open>start / target\<close> and that factor minus one as the parts of water.
\<close>

theorem cmd_dilute_spec:
  "((\<exists>msg. cmd_dilute start target = Inl (SystemExit msg)) \<longleftrightarrow>
      (target \<ge> start \<or> target \<le> 0)) \<and>
   cmd_dilute start target \<noteq> Inl ZeroDivisionError \<and>
   (target < start \<and> target > 0 \<longrightarrow>
      cmd_dilute start target =
        Inr \<lparr>dilution_factor = start / target, water_parts = start / target - 1\<rparr>)"
  by (auto simp: cmd_dilute_def py_div_def)

theorem cmd_dilute_spec_witness:
  "cmd_dilute 20 5 = Inr \<lparr>dilution_factor = 4, water_parts = 3\<rparr> \<and>
   (\<exists>msg. cmd_dilute 5 5 = Inl (SystemExit msg)) \<and>
   (\<exists>msg. cmd_dilute 5 0 = Inl (SystemExit msg))"
  using cmd_dilute_spec [of 20 5] cmd_dilute_spec [of 5 5] cmd_dilute_spec [of 5 0]
  by simp

subsection \<open>Comparison with the targets\<close>

lemma compare_target_cases:
  "compare_target tolerance calc target v =
     (if target * (1 - tolerance) \<le> calc \<and> calc \<le> target * (1 + tolerance) then Inr (OK, v)
      else if target = 0 then Inl ZeroDivisionError
      else if calc < target * (1 - tolerance)
        then Inr (LOW ((calc - target) / target * 100), FAIL)
        else Inr (HIGH ((calc - target) / target * 100), FAIL))"
  by (simp add: compare_target_def py_div_def Let_def)

lemma compare_target_zero:
  "compare_target tolerance calc 0 v =
     (if calc = 0 then Inr (OK, v) else Inl ZeroDivisionError)"
  by (auto simp: compare_target_cases)

text \<open>
  Claim C2. The claim asks, for every numeric target, for the status HIGH with the
  deviation whenever the value lies above the window, and for LOW whenever it lies below.
  The row of \<open>zero_target_standards\<close> has the Lysine target 0 and the tolerance 10, so its
  window is \<open>[0, 0]\<close>; the diet \<^verbatim>\<open>F1:60,F2:40\<close> has the Lysine total \<open>27/20\<close>, above that
  window. Building the label divides by the target, and the whole command stops with an
  uncaught \<^verbatim>\<open>ZeroDivisionError\<close>: no status and no verdict is reported. By
  \<open>compare_target_zero\<close> the same happens for every value other than 0 at a target of 0.
\<close>

theorem cmd_check_zero_target_crashes:
  "cmd_check decimal_float prefix_matcher zero_target_standards sample_feeds
     ''XYZ0'' ''F1:60,F2:40'' = Inl ZeroDivisionError"
  by (simp add: run_simps zero_target_standards_def)

subsection \<open>The overall verdict\<close>

lemma compare_target_verdict:
  assumes "compare_target tolerance calc target v = Inr (s, v')"
  shows "s \<noteq> NA \<and> (v' = PASS \<longleftrightarrow> v = PASS \<and> \<not> off_target s)"
  using assms by (auto simp: compare_target_cases split: if_splits)

lemma compare_loop_acc:
  "compare_loop tol data rows0 v0 = Inr (rows, v) \<Longrightarrow>
     \<exists>new. rows = rows0 @ new \<and>
       map (\<lambda>(l, c, t, s). (l, c, t)) new = data \<and>
       (\<forall>(l, c, t, s) \<in> set new. (t = None \<longleftrightarrow> s = NA)) \<and>
       (v = PASS \<longleftrightarrow> v0 = PASS \<and> (\<forall>(l, c, t, s) \<in> set new. \<not> off_target s))"
proof (induction tol data rows0 v0 rule: compare_loop.induct)
  case (1 tolerance comp_rows overall_status)
  then show ?case by simp
next
  case (2 tolerance label calc rest comp_rows overall_status)
  from "2.prems" have
    rec: "compare_loop tolerance rest (comp_rows @ [(label, calc, None, NA)]) overall_status =
            Inr (rows, v)"
    by simp
  from "2.IH" [OF rec] obtain new where
    n: "rows = (comp_rows @ [(label, calc, None, NA)]) @ new \<and>
        map (\<lambda>(l, c, t, s). (l, c, t)) new = rest \<and>
        (\<forall>(l, c, t, s) \<in> set new. (t = None \<longleftrightarrow> s = NA)) \<and>
        (v = PASS \<longleftrightarrow> overall_status = PASS \<and> (\<forall>(l, c, t, s) \<in> set new. \<not> off_target s))"
    ..
  show ?case
    by (rule exI [of _ "(label, calc, None, NA) # new"]) (use n in simp)
next
  case (3 tolerance label calc target rest comp_rows overall_status)
  from "3.prems" obtain s v1 where
    ct: "compare_target tolerance calc target overall_status = Inr (s, v1)"
    and rec: "compare_loop tolerance rest (comp_rows @ [(label, calc, Some target, s)]) v1 = Inr (rows, v)"
    by (auto split: sum.splits)
  from "3.IH" [OF ct refl rec] obtain new where
    n: "rows = (comp_rows @ [(label, calc, Some target, s)]) @ new \<and>
        map (\<lambda>(l, c, t, s). (l, c, t)) new = rest \<and>
        (\<forall>(l, c, t, s) \<in> set new. (t = None \<longleftrightarrow> s = NA)) \<and>
        (v = PASS \<longleftrightarrow> v1 = PASS \<and> (\<forall>(l, c, t, s) \<in> set new. \<not> off_target s))"
    ..
  show ?case
    by (rule exI [of _ "(label, calc, Some target, s) # new"])
      (use n compare_target_verdict [OF ct] in simp)
qed

lemma compare_loop_returns:
  "\<forall>(l, c, t) \<in> set data. t \<noteq> Some 0 \<Longrightarrow> \<exists>res. compare_loop tol data rows0 v0 = Inr res"
proof (induction tol data rows0 v0 rule: compare_loop.induct)
  case (1 tolerance comp_rows overall_status)
  then show ?case by simp
next
  case (2 tolerance label calc rest comp_rows overall_status)
  then show ?case by simp
next
  case (3 tolerance label calc target rest comp_rows overall_status)
  then have nz: "target \<noteq> 0" by simp
  then have "\<exists>s v1. compare_target tolerance calc target overall_status = Inr (s, v1)"
    by (simp add: compare_target_cases)
  then obtain s v1 where ct: "compare_target tolerance calc target overall_status = Inr (s, v1)"
    by blast
  from "3.IH" [OF ct refl] "3.prems" show ?case by (simp add: ct)
qed

text \<open>
  Claim C3. Whenever the check produces its report, the rows of the nutritional balance
  are the five nutrients of \<open>comparison_data\<close> in order, a row has the status N/A exactly
  when its target is absent, and the final result is PASS exactly when no row with a
  defined target has the status LOW or HIGH. A row without a target therefore never
  changes the verdict.
\<close>

theorem cmd_check_verdict:
  assumes "cmd_check pyfloat sm standards_df feeds_df animal diet = Inr r"
  shows "\<exists>animal_std. lookup_animal sm standards_df animal = Inr animal_std \<and>
           map (\<lambda>(label, calc, target, st). (label, calc, target)) (balance r) =
             comparison_data (totals r) animal_std \<and>
           (\<forall>(label, calc, target, st) \<in> set (balance r). (target = None \<longleftrightarrow> st = NA)) \<and>
           (final_result r = PASS \<longleftrightarrow>
              (\<forall>(label, calc, target, st) \<in> set (balance r).
                 target \<noteq> None \<longrightarrow> \<not> off_target st))"
proof -
  from assms obtain animal_std diet_data total_qty x y comp_rows overall_status where
    la: "lookup_animal sm standards_df animal = Inr animal_std"
    and cl: "compare_loop (Tolerance_Pct animal_std / 100)
               (comparison_data (total_nutrients (calculate_totals diet_data)) animal_std) [] PASS
             = Inr (comp_rows, overall_status)"
    and r: "balance r = comp_rows" "final_result r = overall_status"
           "totals r = total_nutrients (calculate_totals diet_data)"
    by (auto simp: cmd_check_def Let_def split: sum.splits prod.splits)
  from compare_loop_acc [OF cl] have
    a: "map (\<lambda>(l, c, t, s). (l, c, t)) comp_rows =
          comparison_data (total_nutrients (calculate_totals diet_data)) animal_std"
    and b: "\<forall>(l, c, t, s) \<in> set comp_rows. (t = None \<longleftrightarrow> s = NA)"
    and c: "overall_status = PASS \<longleftrightarrow> (\<forall>(l, c, t, s) \<in> set comp_rows. \<not> off_target s)"
    by auto
  have d: "(\<forall>(l, c, t, s) \<in> set comp_rows. \<not> off_target s) \<longleftrightarrow>
           (\<forall>(l, c, t, s) \<in> set comp_rows. t \<noteq> None \<longrightarrow> \<not> off_target s)"
    using b by fastforce
  show ?thesis
    using la a b c d r by auto
qed

theorem cmd_check_verdict_witness:
  "(\<exists>r. cmd_check decimal_float prefix_matcher sample_standards sample_feeds
          ''XYZ1'' ''F1:60,F2:40'' = Inr r \<and>
        final_result r = PASS \<and> map (\<lambda>(label, calc, target, st). st) (balance r) = [OK, OK, OK, OK, NA]) \<and>
   (\<exists>r. cmd_check decimal_float prefix_matcher sample_standards sample_feeds
          ''XYZ1'' ''F1:-10'' = Inr r \<and>
        final_result r = FAIL \<and> list_ex (\<lambda>(label, calc, target, st). off_target st) (balance r))"
  using cmd_check_verdict [OF sample_run_pass] cmd_check_verdict [OF sample_run_negative]
  by (simp add: sample_run_pass sample_run_negative)

subsection \<open>Ratios\<close>

text \<open>
  Claim C4, as amended. The ratio Ca/P is the quotient of the two totals when the total of
  P is positive and 0 otherwise, that is also when that total is negative; likewise ME/CP
  with the total of CP. Neither ever divides by zero.
\<close>

theorem ratios_guarded:
  "(0 < t_P tn \<longrightarrow> ca_p_ratio tn = Inr (t_Ca tn / t_P tn)) \<and>
   (t_P tn \<le> 0 \<longrightarrow> ca_p_ratio tn = Inr 0) \<and>
   (0 < t_CP tn \<longrightarrow> me_cp_ratio tn = Inr (t_ME tn / t_CP tn)) \<and>
   (t_CP tn \<le> 0 \<longrightarrow> me_cp_ratio tn = Inr 0) \<and>
   ca_p_ratio tn \<noteq> Inl ZeroDivisionError \<and> me_cp_ratio tn \<noteq> Inl ZeroDivisionError"
  by (simp add: ca_p_ratio_def me_cp_ratio_def py_div_def)

theorem ratios_guarded_witness:
  "ca_p_ratio \<lparr>t_ME = 2600, t_CP = 22, t_Ca = 7 / 5, t_P = 7 / 10, t_Lysine = 27 / 20\<rparr> = Inr 2 \<and>
   me_cp_ratio \<lparr>t_ME = 2600, t_CP = 22, t_Ca = 7 / 5, t_P = 7 / 10, t_Lysine = 27 / 20\<rparr> = Inr (1300 / 11) \<and>
   ca_p_ratio \<lparr>t_ME = 0, t_CP = 0, t_Ca = 0, t_P = 0, t_Lysine = 0\<rparr> = Inr 0 \<and>
   me_cp_ratio \<lparr>t_ME = - 300, t_CP = - 1, t_Ca = 0, t_P = 0, t_Lysine = 0\<rparr> = Inr 0"
  using ratios_guarded [of "\<lparr>t_ME = 2600, t_CP = 22, t_Ca = 7 / 5, t_P = 7 / 10, t_Lysine = 27 / 20\<rparr>"]
    ratios_guarded [of "\<lparr>t_ME = 0, t_CP = 0, t_Ca = 0, t_P = 0, t_Lysine = 0\<rparr>"]
    ratios_guarded [of "\<lparr>t_ME = - 300, t_CP = - 1, t_Ca = 0, t_P = 0, t_Lysine = 0\<rparr>"]
  by simp

text \<open>
  The claim as worded gives the quotient whenever the total of P is not zero. The diet
  \<^verbatim>\<open>F1:-10\<close> on the sample tables (the run \<open>sample_run_negative\<close>) has the totals
  \<open>Ca = -1/10\<close> and \<open>P = -1/20\<close>: their quotient is 2 and the total of P is not zero, yet
  the ratio computed is 0.
\<close>

theorem ca_p_ratio_negative_phosphorus:
  "ca_p_ratio \<lparr>t_ME = - 300, t_CP = - 1, t_Ca = - (1 / 10), t_P = - (1 / 20), t_Lysine = - (1 / 40)\<rparr> = Inr 0 \<and>
   total_nutrients (calculate_totals [\<lparr>Data = hd sample_feeds, Qty = - 10\<rparr>]) =
     \<lparr>t_ME = - 300, t_CP = - 1, t_Ca = - (1 / 10), t_P = - (1 / 20), t_Lysine = - (1 / 40)\<rparr> \<and>
   - (1 / 20) \<noteq> (0::real) \<and> (- (1 / 10)) / (- (1 / 20)) = (2::real)"
  by (simp add: run_simps)

subsection \<open>Identifier lookup and suggestions\<close>

lemma nlargest_length: "length (nlargest n xs) \<le> n"
  by (simp add: nlargest_def)

lemma nlargest_subset: "set (nlargest n xs) \<subseteq> set xs"
proof -
  have "set (take n (rev (sort xs))) \<subseteq> set (rev (sort xs))"
    by (rule set_take_subset)
  then show ?thesis by (simp add: nlargest_def)
qed

lemma nlargest_descending: "sorted_wrt (\<lambda>a b. fst b \<le> fst a) (nlargest n xs)"
proof -
  have "sorted_wrt (\<lambda>a b. a \<le> b) (sort xs)"
    by simp
  then have "sorted_wrt (\<lambda>a b. fst a \<le> fst b) (sort xs)"
    by (rule sorted_wrt_mono_rel [rotated]) (auto simp: less_eq_prod_def)
  then have "sorted_wrt (\<lambda>a b. fst b \<le> fst a) (rev (sort xs))"
    by (simp add: sorted_wrt_rev)
  then show ?thesis
    unfolding nlargest_def by (rule sorted_wrt_take)
qed

lemma get_close_matches_length: "length (get_close_matches sm w ps n c) \<le> n"
  by (simp add: get_close_matches_def Let_def nlargest_length)

lemma get_close_matches_member:
  assumes "x \<in> set (get_close_matches sm w ps n c)"
  shows "x \<in> set ps \<and> c \<le> real_quick_ratio sm x w \<and> c \<le> quick_ratio sm x w \<and> c \<le> ratio sm x w"
proof -
  from assms obtain p where
    p: "p \<in> set (nlargest n (map (\<lambda>x. (ratio sm x w, x))
          (filter (\<lambda>x. c \<le> real_quick_ratio sm x w \<and> c \<le> quick_ratio sm x w \<and> c \<le> ratio sm x w) ps)))"
    and x: "x = snd p"
    by (auto simp: get_close_matches_def Let_def)
  from p nlargest_subset have
    "p \<in> set (map (\<lambda>x. (ratio sm x w, x))
          (filter (\<lambda>x. c \<le> real_quick_ratio sm x w \<and> c \<le> quick_ratio sm x w \<and> c \<le> ratio sm x w) ps))"
    by blast
  with x show ?thesis by auto
qed

lemma get_close_matches_descending:
  "sorted_wrt (\<lambda>a b. ratio sm b w \<le> ratio sm a w) (get_close_matches sm w ps n c)"
proof -
  define L where "L = nlargest n (map (\<lambda>x. (ratio sm x w, x))
          (filter (\<lambda>x. c \<le> real_quick_ratio sm x w \<and> c \<le> quick_ratio sm x w \<and> c \<le> ratio sm x w) ps))"
  have fst_snd: "fst p = ratio sm (snd p) w" if "p \<in> set L" for p
  proof -
    from that nlargest_subset have
      "p \<in> set (map (\<lambda>x. (ratio sm x w, x))
          (filter (\<lambda>x. c \<le> real_quick_ratio sm x w \<and> c \<le> quick_ratio sm x w \<and> c \<le> ratio sm x w) ps))"
      unfolding L_def by blast
    then show ?thesis by auto
  qed
  have "sorted_wrt (\<lambda>a b. fst b \<le> fst a) L"
    unfolding L_def by (rule nlargest_descending)
  then have "sorted_wrt (\<lambda>p q. ratio sm (snd q) w \<le> ratio sm (snd p) w) L"
    by (rule sorted_wrt_mono_rel [rotated]) (simp add: fst_snd)
  then have "sorted_wrt (\<lambda>a b. ratio sm b w \<le> ratio sm a w) (map snd L)"
    by (simp add: sorted_wrt_map)
  then show ?thesis
    by (simp add: get_close_matches_def Let_def L_def)
qed

lemma case_filter_find:
  "(case filter P xs of [] \<Rightarrow> a | x # _ \<Rightarrow> f x) = (case List.find P xs of None \<Rightarrow> a | Some x \<Rightarrow> f x)"
  by (induction xs) auto

text \<open>
  Claim C8. For the animal and for the feed lookup: when a row of the table has exactly the
  identifier asked for, the first such row is returned and no suggestion is computed.
  When there is none, the command exits with the message built from the suggestions of
  \<open>find_similar_id\<close>. That list has at most three elements, each of them is one of the
  identifiers offered and has a similarity of at least 0.6 to the target, and the list is
  in descending order of similarity.
\<close>

theorem lookup_exact_then_fuzzy:
  "(\<forall>r. List.find (\<lambda>r. Animal_ID r = target) standards_df = Some r \<longrightarrow>
        lookup_animal sm standards_df target = Inr r) \<and>
   (\<forall>r. List.find (\<lambda>r. Feed_ID r = target) feeds_df = Some r \<longrightarrow>
        lookup_feed sm feeds_df target = Inr r) \<and>
   (target \<notin> set (map Animal_ID standards_df) \<longrightarrow>
      lookup_animal sm standards_df target =
        Inl (SystemExit (not_found_msg ''Animal ID'' target
               (find_similar_id sm target (map Animal_ID standards_df))))) \<and>
   (target \<notin> set (map Feed_ID feeds_df) \<longrightarrow>
      lookup_feed sm feeds_df target =
        Inl (SystemExit (not_found_msg ''Feed ID'' target
               (find_similar_id sm target (map Feed_ID feeds_df))))) \<and>
   length (find_similar_id sm target ids) \<le> 3 \<and>
   (\<forall>s \<in> set (find_similar_id sm target ids). s \<in> set ids \<and> 6 / 10 \<le> ratio sm s target) \<and>
   sorted_wrt (\<lambda>a b. ratio sm b target \<le> ratio sm a target) (find_similar_id sm target ids)"
proof -
  have a: "\<forall>r. List.find (\<lambda>r. Animal_ID r = target) standards_df = Some r \<longrightarrow>
        lookup_animal sm standards_df target = Inr r"
    by (simp add: lookup_animal_def case_filter_find)
  have b: "\<forall>r. List.find (\<lambda>r. Feed_ID r = target) feeds_df = Some r \<longrightarrow>
        lookup_feed sm feeds_df target = Inr r"
    by (simp add: lookup_feed_def case_filter_find)
  have c: "target \<notin> set (map Animal_ID standards_df) \<longrightarrow>
      lookup_animal sm standards_df target =
        Inl (SystemExit (not_found_msg ''Animal ID'' target
               (find_similar_id sm target (map Animal_ID standards_df))))"
  proof
    assume "target \<notin> set (map Animal_ID standards_df)"
    then have "List.find (\<lambda>r. Animal_ID r = target) standards_df = None"
      by (auto simp: find_None_iff)
    then show "lookup_animal sm standards_df target =
        Inl (SystemExit (not_found_msg ''Animal ID'' target
               (find_similar_id sm target (map Animal_ID standards_df))))"
      by (simp add: lookup_animal_def case_filter_find)
  qed
  have d: "target \<notin> set (map Feed_ID feeds_df) \<longrightarrow>
      lookup_feed sm feeds_df target =
        Inl (SystemExit (not_found_msg ''Feed ID'' target
               (find_similar_id sm target (map Feed_ID feeds_df))))"
  proof
    assume "target \<notin> set (map Feed_ID feeds_df)"
    then have "List.find (\<lambda>r. Feed_ID r = target) feeds_df = None"
      by (auto simp: find_None_iff)
    then show "lookup_feed sm feeds_df target =
        Inl (SystemExit (not_found_msg ''Feed ID'' target
               (find_similar_id sm target (map Feed_ID feeds_df))))"
      by (simp add: lookup_feed_def case_filter_find)
  qed
  have e: "length (find_similar_id sm target ids) \<le> 3"
    unfolding find_similar_id_def by (rule get_close_matches_length)
  have f: "\<forall>s \<in> set (find_similar_id sm target ids). s \<in> set ids \<and> 6 / 10 \<le> ratio sm s target"
    unfolding find_similar_id_def using get_close_matches_member by blast
  have g: "sorted_wrt (\<lambda>a b. ratio sm b target \<le> ratio sm a target) (find_similar_id sm target ids)"
    unfolding find_similar_id_def by (rule get_close_matches_descending)
  from a b c d e f g show ?thesis by blast
qed

lemma sample_suggestions:
  "find_similar_id prefix_matcher ''XYZ'' [''ABC'', ''XYZ12'', ''XY'', ''XYZ123'', ''XYZ1''] =
     [''XYZ1'', ''XY'', ''XYZ12'']"
  by (simp add: find_similar_id_def get_close_matches_def nlargest_def prefix_matcher_def
      prefix_score_def less_eq_prod_def less_prod_def Let_def)


theorem lookup_exact_then_fuzzy_witness:
  "lookup_animal prefix_matcher sample_standards ''XYZ1'' = Inr (hd sample_standards) \<and>
   lookup_animal prefix_matcher sample_standards ''XYZ'' =
     Inl (SystemExit (not_found_msg ''Animal ID'' ''XYZ'' [''XYZ1''])) \<and>
   lookup_feed prefix_matcher sample_feeds ''F2'' = Inr (sample_feeds ! 1) \<and>
   find_similar_id prefix_matcher ''XYZ'' [''ABC'', ''XYZ12'', ''XY'', ''XYZ123'', ''XYZ1''] =
     [''XYZ1'', ''XY'', ''XYZ12'']"
  using lookup_exact_then_fuzzy [where target = "''XYZ1''" and standards_df = sample_standards
      and sm = prefix_matcher and feeds_df = sample_feeds and ids = "[]"]
    lookup_exact_then_fuzzy [where target = "''XYZ''" and standards_df = sample_standards
      and sm = prefix_matcher and feeds_df = sample_feeds
      and ids = "[''ABC'', ''XYZ12'', ''XY'', ''XYZ123'', ''XYZ1'']"]
    lookup_exact_then_fuzzy [where target = "''F2''" and standards_df = sample_standards
      and sm = prefix_matcher and feeds_df = sample_feeds and ids = "[]"]
  by (simp add: sample_suggestions run_simps)

subsection \<open>Parsing diet entries\<close>






subsection \<open>Quantities of any sign\<close>

lemma parse_diet_acc:
  "parse_diet pyfloat sm feeds_df entries diet_data total_qty = Inr (items, tq) \<Longrightarrow>
     \<exists>new. items = diet_data @ new \<and> length new = length entries \<and>
           tq = total_qty + (\<Sum>item\<leftarrow>new. Qty item)"
proof (induction entries arbitrary: diet_data total_qty)
  case Nil
  then show ?case by simp
next
  case (Cons entry rest)
  from Cons.prems obtain f_id qty feed_data where
    rec: "parse_diet pyfloat sm feeds_df rest (diet_data @ [\<lparr>Data = feed_data, Qty = qty\<rparr>])
            (total_qty + qty) = Inr (items, tq)"
    by (auto split: sum.splits prod.splits)
  from Cons.IH [OF rec] obtain new where
    n: "items = (diet_data @ [\<lparr>Data = feed_data, Qty = qty\<rparr>]) @ new \<and>
        length new = length rest \<and>
        tq = (total_qty + qty) + (\<Sum>item\<leftarrow>new. Qty item)"
    ..
  show ?case
    by (rule exI [of _ "\<lparr>Data = feed_data, Qty = qty\<rparr> # new"]) (use n in simp)
qed

text \<open>
  Claim C10. No sign is checked: a token that splits into an identifier and a quantity
  string that \<^verbatim>\<open>float\<close> reads, whatever number comes out, and whose identifier is in the
  feeds table, is appended to the diet with that quantity, and the quantity is added to
  the running \<open>total_qty\<close>. The entry changes each nutrient total by
  \<open>quantity * value / 100\<close>; for a negative quantity this lowers \<open>total_qty\<close> and is a
  negative amount for every nutrient whose value is positive. By \<open>parse_diet_acc\<close> the
  final \<open>total_qty\<close> is the sum of all quantities.
\<close>

theorem no_sign_check:
  assumes "split_str CHR '':'' entry = [f_id, qty_str]"
    and "pyfloat qty_str = Some qty"
    and "lookup_feed sm feeds_df f_id = Inr f"
  shows "parse_entry pyfloat entry = Inr (f_id, qty) \<and>
     parse_diet pyfloat sm feeds_df (entry # rest) diet_data total_qty =
       parse_diet pyfloat sm feeds_df rest (diet_data @ [\<lparr>Data = f, Qty = qty\<rparr>]) (total_qty + qty) \<and>
     total_nutrients (ration_step st \<lparr>Data = f, Qty = qty\<rparr>) =
       \<lparr>t_ME = t_ME (total_nutrients st) + qty * ME_per_kg f / 100,
        t_CP = t_CP (total_nutrients st) + qty * CP_Pct f / 100,
        t_Ca = t_Ca (total_nutrients st) + qty * Ca_Pct f / 100,
        t_P = t_P (total_nutrients st) + qty * P_Pct f / 100,
        t_Lysine = t_Lysine (total_nutrients st) + qty * Lysine_Pct f / 100\<rparr> \<and>
     (qty < 0 \<longrightarrow>
        total_qty + qty < total_qty \<and>
        (0 < ME_per_kg f \<longrightarrow> qty * ME_per_kg f / 100 < 0) \<and>
        (0 < CP_Pct f \<longrightarrow> qty * CP_Pct f / 100 < 0) \<and>
        (0 < Ca_Pct f \<longrightarrow> qty * Ca_Pct f / 100 < 0) \<and>
        (0 < P_Pct f \<longrightarrow> qty * P_Pct f / 100 < 0) \<and>
        (0 < Lysine_Pct f \<longrightarrow> qty * Lysine_Pct f / 100 < 0))"
proof -
  have pe: "parse_entry pyfloat entry = Inr (f_id, qty)"
    using assms(1,2) by (simp add: parse_entry_def)
  have pd: "parse_diet pyfloat sm feeds_df (entry # rest) diet_data total_qty =
       parse_diet pyfloat sm feeds_df rest (diet_data @ [\<lparr>Data = f, Qty = qty\<rparr>]) (total_qty + qty)"
    using pe assms(3) by simp
  have rs: "total_nutrients (ration_step st \<lparr>Data = f, Qty = qty\<rparr>) =
       \<lparr>t_ME = t_ME (total_nutrients st) + qty * ME_per_kg f / 100,
        t_CP = t_CP (total_nutrients st) + qty * CP_Pct f / 100,
        t_Ca = t_Ca (total_nutrients st) + qty * Ca_Pct f / 100,
        t_P = t_P (total_nutrients st) + qty * P_Pct f / 100,
        t_Lysine = t_Lysine (total_nutrients st) + qty * Lysine_Pct f / 100\<rparr>"
    by (simp add: ration_step_def Let_def)
  have neg: "qty * v / 100 < 0" if "qty < 0" "0 < v" for v :: real
    using that by (simp add: mult_neg_pos)
  show ?thesis
    using pe pd rs neg by simp
qed

theorem no_sign_check_witness:
  "parse_entry decimal_float ''F1:-10'' = Inr (''F1'', - 10) \<and>
   parse_diet decimal_float prefix_matcher sample_feeds [''F1:-10''] [] 0 =
     Inr ([\<lparr>Data = hd sample_feeds, Qty = - 10\<rparr>], - 10) \<and>
   total_nutrients (ration_step initial_state \<lparr>Data = hd sample_feeds, Qty = - 10\<rparr>) =
     \<lparr>t_ME = - 300, t_CP = - 1, t_Ca = - (1 / 10), t_P = - (1 / 20), t_Lysine = - (1 / 40)\<rparr>"
proof -
  have s: "split_str CHR '':'' ''F1:-10'' = [''F1'', ''-10'']"
    by simp
  have p: "decimal_float ''-10'' = Some (- 10)"
    by (simp add: decimal_float_def unsigned_decimal_def digit_value_def)
  have l: "lookup_feed prefix_matcher sample_feeds ''F1'' = Inr (hd sample_feeds)"
    by (simp add: lookup_feed_def sample_feeds_def)
  note t = no_sign_check [where pyfloat = decimal_float and entry = "''F1:-10''" and f_id = "''F1''"
        and qty_str = "''-10''" and qty = "- 10" and sm = prefix_matcher
        and feeds_df = sample_feeds and f = "hd sample_feeds" and rest = "[]"
        and diet_data = "[]" and total_qty = 0 and st = initial_state, OF s p l]
  have a: "parse_entry decimal_float ''F1:-10'' = Inr (''F1'', - 10)"
    using t by (rule conjunct1)
  have b: "parse_diet decimal_float prefix_matcher sample_feeds [''F1:-10''] [] 0 =
     Inr ([\<lparr>Data = hd sample_feeds, Qty = - 10\<rparr>], - 10)"
    using t [THEN conjunct2, THEN conjunct1] by simp
  have c: "total_nutrients (ration_step initial_state \<lparr>Data = hd sample_feeds, Qty = - 10\<rparr>) =
     \<lparr>t_ME = - 300, t_CP = - 1, t_Ca = - (1 / 10), t_P = - (1 / 20), t_Lysine = - (1 / 40)\<rparr>"
    using t [THEN conjunct2, THEN conjunct2, THEN conjunct1]
    by (simp add: sample_feeds_def initial_state_def)
  from a b c show ?thesis by blast
qed


end
